theory Spec2Isabelle
  imports Main "HOL-Library.Sublist"
begin

section \<open>Python strings\<close>

text \<open>
  Text is a \<^typ>\<open>string\<close>, one \<^typ>\<open>char\<close> per character: the embedding covers the
  characters up to U+00FF. \<open>str.lower\<close> maps the letters A to Z to a to z and the capital
  letters U+00C0 to U+00DE, the multiplication sign U+00D7 apart, to the letters U+00E0
  to U+00FE; it leaves every other character up to U+00FF as it is.
\<close>

definition upper_letters :: string where
  "upper_letters =
     ''ABCDEFGHIJKLMNOPQRSTUVWXYZ'' @
     [CHR 0xC0, CHR 0xC1, CHR 0xC2, CHR 0xC3, CHR 0xC4, CHR 0xC5, CHR 0xC6, CHR 0xC7,
      CHR 0xC8, CHR 0xC9, CHR 0xCA, CHR 0xCB, CHR 0xCC, CHR 0xCD, CHR 0xCE, CHR 0xCF,
      CHR 0xD0, CHR 0xD1, CHR 0xD2, CHR 0xD3, CHR 0xD4, CHR 0xD5, CHR 0xD6,
      CHR 0xD8, CHR 0xD9, CHR 0xDA, CHR 0xDB, CHR 0xDC, CHR 0xDD, CHR 0xDE]"

definition lower_letters :: string where
  "lower_letters =
     ''abcdefghijklmnopqrstuvwxyz'' @
     [CHR 0xE0, CHR 0xE1, CHR 0xE2, CHR 0xE3, CHR 0xE4, CHR 0xE5, CHR 0xE6, CHR 0xE7,
      CHR 0xE8, CHR 0xE9, CHR 0xEA, CHR 0xEB, CHR 0xEC, CHR 0xED, CHR 0xEE, CHR 0xEF,
      CHR 0xF0, CHR 0xF1, CHR 0xF2, CHR 0xF3, CHR 0xF4, CHR 0xF5, CHR 0xF6,
      CHR 0xF8, CHR 0xF9, CHR 0xFA, CHR 0xFB, CHR 0xFC, CHR 0xFD, CHR 0xFE]"

definition lower_char :: "char \<Rightarrow> char" where
  "lower_char c =
     (case map_of (zip upper_letters lower_letters) c of
        None \<Rightarrow> c
      | Some d \<Rightarrow> d)"

definition lower :: "string \<Rightarrow> string" where
  "lower s = map lower_char s"

text \<open>
  \<open>s.replace(old, new)\<close>: every occurrence of \<open>old\<close>, found from the left and not
  overlapping, becomes \<open>new\<close>. With an empty \<open>old\<close> Python puts \<open>new\<close> before every
  character and at the end.
\<close>

function replace_from :: "string \<Rightarrow> string \<Rightarrow> string \<Rightarrow> string" where
  "replace_from old new [] = []"
| "replace_from old new (c # cs) =
     (if old \<noteq> [] \<and> prefix old (c # cs)
      then new @ replace_from old new (drop (length old) (c # cs))
      else c # replace_from old new cs)"
  by pat_completeness auto
termination
  by (relation "measure (\<lambda>(old, new, s). length s)") auto

definition replace :: "string \<Rightarrow> string \<Rightarrow> string \<Rightarrow> string" where
  "replace old new s =
     (if old = [] then new @ concat (map (\<lambda>c. c # new) s) else replace_from old new s)"

text \<open>\<open>sep.join(xs)\<close>.\<close>

fun join :: "string \<Rightarrow> string list \<Rightarrow> string" where
  "join sep [] = []"
| "join sep [x] = x"
| "join sep (x # y # ys) = x @ sep @ join sep (y # ys)"

text \<open>\<open>sub in s\<close>: \<open>sub\<close> occurs in \<open>s\<close> as a contiguous piece.\<close>

fun contains :: "string \<Rightarrow> string \<Rightarrow> bool" where
  "contains sub [] = (sub = [])"
| "contains sub (c # cs) = (prefix sub (c # cs) \<or> contains sub cs)"

text \<open>\<open>s.endswith(suf)\<close>.\<close>

definition endswith :: "string \<Rightarrow> string \<Rightarrow> bool" where
  "endswith s suf = suffix suf s"

text \<open>
  \<open>s.strip()\<close> drops the white space at both ends; the characters up to U+00FF that
  Python counts as white space are tab, line feed, vertical tab, form feed, carriage
  return, the four separators 0x1C to 0x1F, the space, the next-line control U+0085 and
  the no-break space U+00A0.
\<close>

definition is_space :: "char \<Rightarrow> bool" where
  "is_space c = (c \<in> set [CHR 0x09, CHR 0x0A, CHR 0x0B, CHR 0x0C, CHR 0x0D,
                            CHR 0x1C, CHR 0x1D, CHR 0x1E, CHR 0x1F, CHR 0x20,
                            CHR 0x85, CHR 0xA0])"

definition strip :: "string \<Rightarrow> string" where
  "strip s = rev (dropWhile is_space (rev (dropWhile is_space s)))"

text \<open>\<open>str(n)\<close> for an integer: its decimal digits, with a minus sign below zero.\<close>

definition digit :: "nat \<Rightarrow> char" where
  "digit d = ''0123456789'' ! d"

function str_nat :: "nat \<Rightarrow> string" where
  "str_nat n = (if n < 10 then [digit n] else str_nat (n div 10) @ [digit (n mod 10)])"
  by pat_completeness auto
termination
  by (relation "measure id") auto

declare str_nat.simps [simp del]

definition str_int :: "int \<Rightarrow> string" where
  "str_int i = (if i < 0 then ''-'' @ str_nat (nat (- i)) else str_nat (nat i))"

section \<open>Regular expressions\<close>

text \<open>
  The two patterns of the program are sequences of three kinds of item: one character of
  a class, a greedy star over a class (\<open>[^>]*\<close>) and a lazy star over a class (\<open>.*?\<close>).
  A class is one literal character, every character but one (\<open>[^c]\<close>), or any character
  (the dot under \<open>re.DOTALL\<close>).
\<close>

datatype cls = Lit char | Not char | Any

fun cls_match :: "cls \<Rightarrow> char \<Rightarrow> bool" where
  "cls_match (Lit a) c = (c = a)"
| "cls_match (Not a) c = (c \<noteq> a)"
| "cls_match Any c = True"

datatype item = One cls | Greedy cls | Lazy cls

definition lits :: "string \<Rightarrow> item list" where
  "lits s = map (\<lambda>c. One (Lit c)) s"

text \<open>
  A match is the list of the pieces of text its items consumed, one piece per item, with
  the text left after it. \<open>grow\<close> gives the star at the head one more character,
  \<open>stop\<close> lets it end.
\<close>

fun grow :: "char \<Rightarrow> string list \<times> string \<Rightarrow> string list \<times> string" where
  "grow c (p # ps, rest) = ((c # p) # ps, rest)"
| "grow c ([], rest) = ([[c]], rest)"

fun stop :: "string list \<times> string \<Rightarrow> string list \<times> string" where
  "stop (ps, rest) = ([] # ps, rest)"

text \<open>
  The backtracking matcher of \<open>re\<close> at one position: a greedy star first takes a
  character and gives it back when the rest of the pattern fails; a lazy star first tries
  the rest of the pattern and takes a character when that fails.
\<close>

fun match_here :: "item list \<Rightarrow> string \<Rightarrow> (string list \<times> string) option" where
  "match_here [] s = Some ([], s)"
| "match_here (One k # r) [] = None"
| "match_here (One k # r) (c # cs) =
     (if cls_match k c then map_option (\<lambda>(ps, rest). ([c] # ps, rest)) (match_here r cs)
      else None)"
| "match_here (Greedy k # r) [] = map_option stop (match_here r [])"
| "match_here (Greedy k # r) (c # cs) =
     (if cls_match k c
      then (case match_here (Greedy k # r) cs of
              Some m \<Rightarrow> Some (grow c m)
            | None \<Rightarrow> map_option stop (match_here r (c # cs)))
      else map_option stop (match_here r (c # cs)))"
| "match_here (Lazy k # r) [] = map_option stop (match_here r [])"
| "match_here (Lazy k # r) (c # cs) =
     (case match_here r (c # cs) of
        Some m \<Rightarrow> Some (stop m)
      | None \<Rightarrow>
          if cls_match k c then map_option (grow c) (match_here (Lazy k # r) cs)
          else None)"

text \<open>
  \<open>re.search\<close>: the match at the leftmost position that has one, as the text before the
  match, the pieces of the match and the text after it.
\<close>

fun re_search :: "item list \<Rightarrow> string \<Rightarrow> (string \<times> string list \<times> string) option" where
  "re_search items [] = map_option (\<lambda>(ps, rest). ([], ps, rest)) (match_here items [])"
| "re_search items (c # cs) =
     (case match_here items (c # cs) of
        Some (ps, rest) \<Rightarrow> Some ([], ps, rest)
      | None \<Rightarrow> map_option (\<lambda>(pre, ps, rest). (c # pre, ps, rest)) (re_search items cs))"

text \<open>
  The result of \<open>re.search\<close> as three texts: before the match, the match, after it.
\<close>

definition match_span :: "item list \<Rightarrow> string \<Rightarrow> (string \<times> string \<times> string) option" where
  "match_span items s = map_option (\<lambda>(pre, ps, rest). (pre, concat ps, rest)) (re_search items s)"

text \<open>
  \<open>re.sub\<close> with a replacement text that holds no group reference: every match, found
  from the left and not overlapping, becomes \<open>repl\<close>. After an empty match the next
  character is copied and the scan goes on behind it.
\<close>

function re_sub :: "item list \<Rightarrow> string \<Rightarrow> string \<Rightarrow> string" where
  "re_sub items repl s =
     (case match_here items s of
        Some (ps, rest) \<Rightarrow>
          if length rest < length s then repl @ re_sub items repl rest
          else (case s of [] \<Rightarrow> repl | c # cs \<Rightarrow> repl @ c # re_sub items repl cs)
      | None \<Rightarrow> (case s of [] \<Rightarrow> [] | c # cs \<Rightarrow> c # re_sub items repl cs))"
  by pat_completeness auto
termination
  by (relation "measure (\<lambda>(items, repl, s). length s)") auto

declare re_sub.simps [simp del]

section \<open>The parsed page\<close>

text \<open>
  The tree \<open>BeautifulSoup(content, 'html.parser')\<close> builds. A string node has its class
  (plain text, comment, CDATA section, or another string class such as a doctype) and its
  text; a tag has its name, its \<open>class\<close> attribute as the parser stores it (the list of
  its white-space separated values, \<open>None\<close> without the attribute) and its children.
  The program reads no other attribute. A page is the list of the top-level nodes, the
  children of the \<open>BeautifulSoup\<close> object.
\<close>

datatype strkind = NavigableString | Comment | CData | OtherString

datatype node =
  Str strkind string
| Tag string "string list option" "node list"

text \<open>
  A node is addressed by its path, the child indices from the top; the empty path is the
  \<open>BeautifulSoup\<close> object itself. \<open>descendants p i ns\<close> lists in document order, with
  their paths, the nodes \<open>ns\<close> and all below them, where \<open>ns\<close> are the children from
  index \<open>i\<close> on of the element at \<open>p\<close>.
\<close>

type_synonym path = "nat list"

fun descendants :: "path \<Rightarrow> nat \<Rightarrow> node list \<Rightarrow> (path \<times> node) list" where
  "descendants p i [] = []"
| "descendants p i (Str k s # ns) = (p @ [i], Str k s) # descendants p (Suc i) ns"
| "descendants p i (Tag n c kids # ns) =
     (p @ [i], Tag n c kids) # descendants (p @ [i]) 0 kids @ descendants p (Suc i) ns"

fun contents_at :: "node list \<Rightarrow> path \<Rightarrow> node list option" where
  "contents_at soup [] = Some soup"
| "contents_at soup (i # p) =
     (if i < length soup
      then (case soup ! i of Tag n c kids \<Rightarrow> contents_at kids p | Str k s \<Rightarrow> None)
      else None)"

text \<open>
  \<^verbatim>\<open>soup.find_all(string=lambda text: isinstance(text, str) and "Tags Section" in text)\<close>:
  the string nodes of every class whose text contains the marker, in document order.
\<close>

fun is_marker :: "node \<Rightarrow> bool" where
  "is_marker (Str k s) = contains ''Tags Section'' s"
| "is_marker (Tag n c kids) = False"

definition find_all_marker :: "node list \<Rightarrow> (path \<times> node) list" where
  "find_all_marker soup = filter (\<lambda>(p, n). is_marker n) (descendants [] 0 soup)"

text \<open>
  \<open>find_parent()\<close> and \<open>find_next_sibling('div')\<close>: the parent of the node at \<open>p\<close> is
  at \<open>butlast p\<close>; the siblings after the node at \<open>p\<close> are the children of its parent
  behind it, and the \<open>BeautifulSoup\<close> object has none.
\<close>

definition find_parent :: "path \<Rightarrow> path" where
  "find_parent p = butlast p"

definition next_siblings :: "node list \<Rightarrow> path \<Rightarrow> node list" where
  "next_siblings soup p =
     (if p = [] then []
      else (case contents_at soup (butlast p) of
              None \<Rightarrow> []
            | Some sibs \<Rightarrow> drop (Suc (last p)) sibs))"

fun is_tag :: "string \<Rightarrow> node \<Rightarrow> bool" where
  "is_tag name (Str k s) = False"
| "is_tag name (Tag n c kids) = (n = name)"

definition find_next_sibling :: "string \<Rightarrow> node list \<Rightarrow> path \<Rightarrow> node option" where
  "find_next_sibling name soup p = find (is_tag name) (next_siblings soup p)"

text \<open>
  The loop over the markers: the first one whose parent has a \<open>div\<close> among its later
  siblings gives the tags section (a tag is always true in a condition).
\<close>

fun first_tags_section :: "node list \<Rightarrow> (path \<times> node) list \<Rightarrow> node option" where
  "first_tags_section soup [] = None"
| "first_tags_section soup ((p, n) # rest) =
     (case find_next_sibling ''div'' soup (find_parent p) of
        Some d \<Rightarrow> Some d
      | None \<Rightarrow> first_tags_section soup rest)"

text \<open>
  \<^verbatim>\<open>tags_section.find_all('span', class_=lambda c: c and 'inline-flex' in c)\<close>: the
  filter is tried on each value of the \<open>class\<close> attribute and on the values joined by
  spaces; a tag without the attribute fails it.
\<close>

definition class_matches :: "string list option \<Rightarrow> bool" where
  "class_matches c =
     (case c of
        None \<Rightarrow> False
      | Some toks \<Rightarrow>
          list_ex (contains ''inline-flex'') toks \<or> contains ''inline-flex'' (join '' '' toks))"

fun is_tag_span :: "node \<Rightarrow> bool" where
  "is_tag_span (Str k s) = False"
| "is_tag_span (Tag n c kids) = (n = ''span'' \<and> class_matches c)"

fun contents :: "node \<Rightarrow> node list" where
  "contents (Str k s) = []"
| "contents (Tag n c kids) = kids"

definition find_all_span :: "node \<Rightarrow> node list" where
  "find_all_span sec = filter is_tag_span (map snd (descendants [] 0 (contents sec)))"

text \<open>
  \<open>get_text()\<close>: the texts of the plain-text and CDATA strings below the element, in
  document order, with nothing between them.
\<close>

fun own_text :: "node \<Rightarrow> string" where
  "own_text (Str k s) = (if k = NavigableString \<or> k = CData then s else [])"
| "own_text (Tag n c kids) = []"

definition get_text :: "node \<Rightarrow> string" where
  "get_text el = concat (map (own_text \<circ> snd) (descendants [] 0 (contents el)))"

fun collect_tags :: "node list \<Rightarrow> string list" where
  "collect_tags [] = []"
| "collect_tags (span # spans) =
     (let tag_text = strip (get_text span)
      in if tag_text \<noteq> [] then tag_text # collect_tags spans else collect_tags spans)"

section \<open>Files\<close>

text \<open>
  An exception is its message. A file system gives for every path either the exception
  that opening or reading it raises, or its text. The parser is a parameter: it raises or
  builds a page.
\<close>

type_synonym exn = string
type_synonym filesystem = "string \<Rightarrow> exn + string"
type_synonym parser = "string \<Rightarrow> exn + node list"

text \<open>
  \<open>glob.glob\<close> with the pattern \<open>*.html\<close> over the names of a directory: the names that
  end in \<open>.html\<close> and do not start with a dot, in the order of the directory.
\<close>

definition glob_html :: "string list \<Rightarrow> string list" where
  "glob_html listing = filter (\<lambda>name. \<not> prefix ''.'' name \<and> endswith name ''.html'') listing"

section \<open>The tag auditor\<close>

text \<open>
  \<open>extract_tags_from_recipe_page\<close> returns the tags, or \<open>None\<close>, with the lines it
  prints. Every exception of the read and of the parse is caught.
\<close>

definition extract_tags_from_recipe_page ::
  "parser \<Rightarrow> filesystem \<Rightarrow> string \<Rightarrow> string list option \<times> string list" where
  "extract_tags_from_recipe_page parse fs file_path =
     (case fs file_path of
        Inl e \<Rightarrow> (None, [''Error processing '' @ file_path @ '': '' @ e])
      | Inr content \<Rightarrow>
          (case parse content of
             Inl e \<Rightarrow> (None, [''Error processing '' @ file_path @ '': '' @ e])
           | Inr soup \<Rightarrow>
               (case first_tags_section soup (find_all_marker soup) of
                  None \<Rightarrow> (None, [])
                | Some tags_section \<Rightarrow> (Some (collect_tags (find_all_span tags_section)), []))))"

text \<open>
  The pattern \<^verbatim>\<open>href="{recipe_name}"[^>]*data-tags="([^"]*)"\<close>. The name is put into the
  pattern text as it is. A name without regular-expression metacharacters stands for
  itself, character by character, and group 1 is the piece of the last star, the item
  before the closing quote.
\<close>

definition plain_name :: "string \<Rightarrow> bool" where
  "plain_name recipe_name =
     list_all (\<lambda>c. c \<notin> set (CHR 0x5C # ''.^$*+?{}[]|()'')) recipe_name"

definition index_pattern :: "string \<Rightarrow> item list" where
  "index_pattern recipe_name =
     lits (''href=\"'' @ recipe_name @ ''\"'') @ [Greedy (Not CHR ''>'')] @
     lits ''data-tags=\"'' @ [Greedy (Not CHR 0x22)] @ lits ''\"''"

definition group1 :: "string list \<Rightarrow> string" where
  "group1 ps = last (butlast ps)"

text \<open>
  A name with a metacharacter makes another pattern, or no pattern at all: what
  \<open>re.search\<close> and \<open>group(1)\<close> then do with the index text and the name (raise, or
  return a text or \<open>None\<close>) is a parameter of the embedding.
\<close>

type_synonym special_search = "string \<Rightarrow> string \<Rightarrow> exn + string option"

definition extract_current_tags_from_index ::
  "special_search \<Rightarrow> string \<Rightarrow> string \<Rightarrow> exn + string option" where
  "extract_current_tags_from_index special index_content recipe_name =
     (if plain_name recipe_name
      then (case re_search (index_pattern recipe_name) index_content of
              Some (pre, ps, rest) \<Rightarrow> Inr (Some (group1 ps))
            | None \<Rightarrow> Inr None)
      else special index_content recipe_name)"

text \<open>
  The list comprehension and the join of \<open>main\<close>:
  \<^verbatim>\<open>' '.join([tag.lower().replace(' ', '-') for tag in recipe_tags])\<close>
\<close>

definition formatted_data_tags :: "string list \<Rightarrow> string" where
  "formatted_data_tags recipe_tags =
     join '' '' (map (\<lambda>tag. replace '' '' ''-'' (lower tag)) recipe_tags)"

text \<open>
  The normalisation rule in the specification's words: a tag is lower-cased and each of its
  spaces becomes a hyphen; the normalised tags follow one another in the order of the list,
  with one space between two neighbours.
\<close>

definition normalized_tag :: "string \<Rightarrow> string" where
  "normalized_tag t = map (\<lambda>c. if c = CHR '' '' then CHR ''-'' else c) (lower t)"

fun spec_data_tags :: "string list \<Rightarrow> string" where
  "spec_data_tags [] = []"
| "spec_data_tags [t] = normalized_tag t"
| "spec_data_tags (t # ts) = normalized_tag t @ '' '' @ spec_data_tags ts"


text \<open>
  The state of \<open>main\<close>: the text written to the report so far, the lines printed so far
  and the three counters.
\<close>

record audit =
  report :: string
  out :: "string list"
  mismatches :: int
  matches :: int
  errors :: int

text \<open>An optional string inside an f-string: \<open>None\<close> prints as \<open>None\<close>.\<close>

definition str_opt :: "string option \<Rightarrow> string" where
  "str_opt v = (case v of None \<Rightarrow> ''None'' | Some s \<Rightarrow> s)"

definition nl :: string where
  "nl = [CHR 0x0A]"

text \<open>The two writes of the error branch, and the four writes that end the loop body.\<close>

definition error_entry :: "string \<Rightarrow> string" where
  "error_entry recipe_name =
     ''Recipe: '' @ recipe_name @ '' (ERROR)'' @ nl @
     ''No Tags Section found or error processing file'' @ nl @ nl"

definition entry :: "string \<Rightarrow> string \<Rightarrow> string list \<Rightarrow> string option \<Rightarrow> string \<Rightarrow> string" where
  "entry recipe_name status recipe_tags current_data_tags formatted =
     ''Recipe: '' @ recipe_name @ '' ('' @ status @ '')'' @ nl @
     ''Tags on recipe page: '' @ join '', '' recipe_tags @ nl @
     ''Current data-tags in index.html: '' @ str_opt current_data_tags @ nl @
     ''Correct data-tags should be: '' @ formatted @ nl @ nl"

text \<open>
  The body of the loop of \<open>main\<close> for one recipe file; the recipe name is
  \<^verbatim>\<open>recipe_file.replace('.html', '')\<close>. The current value is an optional
  string and the computed one a string: they are equal when the current value is there
  and is the same text. The search in the index is outside every \<open>try\<close>: when it
  raises, the body ends with the exception and the state reached.
\<close>

definition recipe_name_of :: "string \<Rightarrow> string" where
  "recipe_name_of recipe_file = replace ''.html'' [] recipe_file"

definition analyze_recipe ::
  "parser \<Rightarrow> special_search \<Rightarrow> filesystem \<Rightarrow> string \<Rightarrow> audit \<Rightarrow> string \<Rightarrow>
   exn option \<times> audit" where
  "analyze_recipe parse special fs index_content st recipe_file =
     (let recipe_name = recipe_name_of recipe_file;
          (recipe_tags, printed) = extract_tags_from_recipe_page parse fs recipe_file;
          st1 = st\<lparr>out := out st @ [''Analyzing '' @ recipe_name @ ''...''] @ printed\<rparr>
      in case recipe_tags of
           None \<Rightarrow>
             (None, st1\<lparr>report := report st1 @ error_entry recipe_name,
                         errors := errors st1 + 1\<rparr>)
         | Some tags \<Rightarrow>
             (let formatted = formatted_data_tags tags
              in case extract_current_tags_from_index special index_content recipe_name of
                   Inl e \<Rightarrow> (Some e, st1)
                 | Inr current_data_tags \<Rightarrow>
                     if current_data_tags = Some formatted
                     then (None, st1\<lparr>report := report st1 @
                                     entry recipe_name ''MATCH'' tags current_data_tags formatted,
                                   matches := matches st1 + 1\<rparr>)
                     else (None, st1\<lparr>report := report st1 @
                                     entry recipe_name ''MISMATCH'' tags current_data_tags formatted,
                                   mismatches := mismatches st1 + 1\<rparr>)))"

text \<open>The loop: an exception of the body ends it.\<close>

fun analyze_files ::
  "parser \<Rightarrow> special_search \<Rightarrow> filesystem \<Rightarrow> string \<Rightarrow> audit \<Rightarrow> string list \<Rightarrow>
   exn option \<times> audit" where
  "analyze_files parse special fs index_content st [] = (None, st)"
| "analyze_files parse special fs index_content st (recipe_file # rest) =
     (case analyze_recipe parse special fs index_content st recipe_file of
        (Some e, st') \<Rightarrow> (Some e, st')
      | (None, st') \<Rightarrow> analyze_files parse special fs index_content st' rest)"

text \<open>
  The recipe files: the source spells the comparison with \<open>index.html\<close> as \<open>\!=\<close>, read
  here as \<open>!=\<close>.
\<close>

definition recipe_files :: "string list \<Rightarrow> string list" where
  "recipe_files listing = filter (\<lambda>f. f \<noteq> ''index.html'') (glob_html listing)"

definition report_head :: "int \<Rightarrow> string" where
  "report_head n =
     ''Recipe Tag Analysis Report'' @ nl @ ''========================='' @ nl @ nl @
     ''Found '' @ str_int n @ '' recipe HTML files to analyze'' @ nl @ nl"

definition summary :: "int \<Rightarrow> audit \<Rightarrow> string" where
  "summary n st =
     ''Summary:'' @ nl @
     ''- Total recipes analyzed: '' @ str_int n @ nl @
     ''- Matches: '' @ str_int (matches st) @ nl @
     ''- Mismatches: '' @ str_int (mismatches st) @ nl @
     ''- Errors: '' @ str_int (errors st) @ nl"

text \<open>
  \<open>main\<close> over a file system and the names of the working directory gives the
  exception that ended the run, if any, the state reached and the file system after the
  run. Reading \<open>index.html\<close> is outside every \<open>try\<close>: its exception ends the run before
  the report is opened and anything is printed. An exception of the loop ends the run with
  the report as written so far. Otherwise the summary is written and the last two lines
  are printed.
\<close>

definition main ::
  "parser \<Rightarrow> special_search \<Rightarrow> filesystem \<Rightarrow> string list \<Rightarrow>
   exn option \<times> audit \<times> filesystem" where
  "main parse special fs listing =
     (case fs ''index.html'' of
        Inl e \<Rightarrow>
          (Some e, \<lparr>report = [], out = [], mismatches = 0, matches = 0, errors = 0\<rparr>, fs)
      | Inr index_content \<Rightarrow>
          (let files = recipe_files listing;
               n = int (length files);
               st0 = \<lparr>report = report_head n, out = [], mismatches = 0, matches = 0, errors = 0\<rparr>
           in case analyze_files parse special fs index_content st0 files of
                (Some e, st) \<Rightarrow> (Some e, st, fs(''tag_analysis_report.txt'' := Inr (report st)))
              | (None, st) \<Rightarrow>
                  (let fin = st\<lparr>report := report st @ summary n st,
                                out := out st @
                                  [''Analysis complete. Report generated in tag_analysis_report.txt'',
                                   ''Found '' @ str_int (mismatches st) @
                                     '' recipes with mismatched tags.'']\<rparr>
                   in (None, fin, fs(''tag_analysis_report.txt'' := Inr (report fin))))))"

section \<open>The header rewriter\<close>

text \<open>
  The header text, as the string literal of the source denotes it: Python keeps the
  backslash of \<open>\!\<close>, and so does \<open>re.sub\<close> in a replacement text.
\<close>

definition NEW_HEADER :: string where
  "NEW_HEADER = join nl
    [''<body>'',
     ''    <'' @ [CHR 0x5C] @ ''!-- Header -->'',
     ''    <div class=\"container-fluid border-divider-b z-30 bg-black bg-opacity-80 absolute top-0 left-0 right-0\">'',
     ''        <header class=\"container mx-auto flex flex-wrap items-center p-4 px-4\">'',
     ''            <'' @ [CHR 0x5C] @ ''!-- Logo and Navigation - Mobile version -->'',
     ''            <div class=\"flex items-center justify-between text-sm md:hidden w-full\" style=\"margin-bottom: 1.1rem;\">'',
     ''                <a href=\"index\" class=\"hover:text-gray-300 flex items-center whitespace-nowrap\">'',
     ''                    <img src=\"assets/img/logo.png\" alt=\"Tasty Cooking Logo\" class=\"h-6 w-auto mr-3\">'',
     ''                    <span class=\"font-cheee-wowie text-xl text-[#e2ded8]\">Tasty Cooking</span>'',
     ''                </a>'',
     ''            </div>'']"

definition directory :: string where
  "directory = ''/Users/Jim/Documents/GitHub/tasty-cooking''"

text \<open>The file selection: the glob over the directory, then the two suffix tests.\<close>

definition html_files :: "string list \<Rightarrow> string list" where
  "html_files listing =
     filter (\<lambda>f. \<not> (endswith f ''index.html'' \<or> endswith f ''sesame-green-beans.html''))
       (map (\<lambda>name. directory @ ''/'' @ name) (glob_html listing))"

text \<open>
  The pattern
  \<^verbatim>\<open><body>.*?<div class="flex items-center justify-between text-sm md:hidden">\<close>
  under \<open>re.DOTALL\<close>, and the substitution.
\<close>

definition mobile_nav_div :: string where
  "mobile_nav_div = ''<div class=\"flex items-center justify-between text-sm md:hidden\">''"

definition pattern :: "item list" where
  "pattern = lits ''<body>'' @ [Lazy Any] @ lits mobile_nav_div"

definition new_content :: "string \<Rightarrow> string" where
  "new_content content = re_sub pattern NEW_HEADER content"

text \<open>
  The body of the loop for one file: read, substitute, write back. Nothing is caught: an
  exception of the read ends the run. The printed progress lines are left out.
\<close>

definition update_file :: "filesystem \<Rightarrow> string \<Rightarrow> exn + filesystem" where
  "update_file fs file_path =
     (case fs file_path of
        Inl e \<Rightarrow> Inl e
      | Inr content \<Rightarrow> Inr (fs(file_path := Inr (new_content content))))"

fun update_files :: "filesystem \<Rightarrow> string list \<Rightarrow> exn option \<times> filesystem" where
  "update_files fs [] = (None, fs)"
| "update_files fs (file_path # rest) =
     (case update_file fs file_path of
        Inl e \<Rightarrow> (Some e, fs)
      | Inr fs' \<Rightarrow> update_files fs' rest)"

definition update_headers :: "filesystem \<Rightarrow> string list \<Rightarrow> exn option \<times> filesystem" where
  "update_headers fs listing = update_files fs (html_files listing)"

section \<open>Example pages and files\<close>

text \<open>
  Recipe pages, each with its text and the tree the parser builds from it: one with a
  tags section holding two tags, one without any marker, one whose marker is a visible
  heading, and one whose tags section holds no tag (its only span that passes the class
  filter holds a no-break space between two spaces).
\<close>

definition curry_html :: string where
  "curry_html = ''<div><!-- Tags Section --></div><div><span class=\"inline-flex px-2\">Main Course</span><span class=\"inline-flex px-2\"> Spicy </span></div>''"

definition curry_page :: "node list" where
  "curry_page =
     [Tag ''div'' None [Str Comment '' Tags Section ''],
      Tag ''div'' None
        [Tag ''span'' (Some [''inline-flex'', ''px-2'']) [Str NavigableString ''Main Course''],
         Tag ''span'' (Some [''inline-flex'', ''px-2'']) [Str NavigableString '' Spicy '']]]"

definition salad_html :: string where
  "salad_html = ''<h1>Salad</h1><p>No tags.</p>''"

definition salad_page :: "node list" where
  "salad_page =
     [Tag ''h1'' None [Str NavigableString ''Salad''],
      Tag ''p'' None [Str NavigableString ''No tags.'']]"

definition soup_html :: string where
  "soup_html = ''<p>Tags Section</p><div></div>''"

definition soup_page :: "node list" where
  "soup_page = [Tag ''p'' None [Str NavigableString ''Tags Section''], Tag ''div'' None []]"

definition toast_html :: string where
  "toast_html = ''<div><!-- Tags Section --></div><div><span class=\"badge\">Quick</span><span class=\"inline-flex\"> &nbsp; </span></div>''"

definition toast_section :: node where
  "toast_section =
     Tag ''div'' None
       [Tag ''span'' (Some [''badge'']) [Str NavigableString ''Quick''],
        Tag ''span'' (Some [''inline-flex'']) [Str NavigableString [CHR 0x20, CHR 0xA0, CHR 0x20]]]"

definition toast_page :: "node list" where
  "toast_page = [Tag ''div'' None [Str Comment '' Tags Section ''], toast_section]"

text \<open>
  A page with two marker comments: the parent of the first is followed by a \<open>div\<close> with
  one tag, the parent of the second by an empty \<open>div\<close>.
\<close>

definition stew_html :: string where
  "stew_html = ''<div><!-- Tags Section --></div><div><span class=\"inline-flex\">A</span></div><section><!-- Tags Section --></section><div></div>''"

definition stew_page :: "node list" where
  "stew_page =
     [Tag ''div'' None [Str Comment '' Tags Section ''],
      Tag ''div'' None [Tag ''span'' (Some [''inline-flex'']) [Str NavigableString ''A'']],
      Tag ''section'' None [Str Comment '' Tags Section ''],
      Tag ''div'' None []]"

definition example_parse :: parser where
  "example_parse content =
     (if content = curry_html then Inr curry_page
      else if content = salad_html then Inr salad_page
      else if content = soup_html then Inr soup_page
      else if content = toast_html then Inr toast_page
      else if content = stew_html then Inr stew_page
      else Inl ''bad markup'')"

definition example_index :: string where
  "example_index = ''<a href=\"curry\" class=\"card\" data-tags=\"main-course spicy\">Curry</a><a href=\"soup\" data-tags=\"spicy\">Soup</a>''"

definition example_fs :: filesystem where
  "example_fs p =
     (if p = ''index.html'' then Inr example_index
      else if p = ''curry.html'' then Inr curry_html
      else if p = ''salad.html'' then Inr salad_html
      else if p = ''soup.html'' then Inr soup_html
      else if p = ''toast.html'' then Inr toast_html
      else if p = ''stew.html'' then Inr stew_html
      else if p = ''mac(cheese.html'' then Inr toast_html
      else if p = ''broken.html'' then Inr ''<''
      else Inl ''No such file or directory'')"

definition example_listing :: "string list" where
  "example_listing =
     [''curry.html'', ''index.html'', ''gone.html'', ''salad.html'', ''notes.txt'',
      ''broken.html'', ''toast.html'', ''soup.html'']"

text \<open>
  The search for a name with a metacharacter, as far as the examples need it: the name
  \<open>mac(cheese\<close> opens a group that the pattern never closes, and \<open>re\<close> raises.
\<close>

definition example_special :: special_search where
  "example_special index_content recipe_name =
     Inl ''missing ), unterminated subpattern at position 9''"

definition st0 :: audit where
  "st0 = \<lparr>report = [], out = [], mismatches = 0, matches = 0, errors = 0\<rparr>"

text \<open>The markers that are comments.\<close>

definition is_comment :: "node \<Rightarrow> bool" where
  "is_comment n = (case n of Str k s \<Rightarrow> k = Comment | Tag t c kids \<Rightarrow> False)"

definition comment_markers :: "node list \<Rightarrow> (path \<times> node) list" where
  "comment_markers soup = filter (\<lambda>(p, n). is_comment n) (find_all_marker soup)"


text \<open>Two pages for the header rewriter: one with the old header, one without.\<close>

definition menu_html :: string where
  "menu_html = ''<html><body><nav><div class=\"flex items-center justify-between text-sm md:hidden\">Menu</div></body></html>''"

definition plain_html :: string where
  "plain_html = ''<html><body><p>No header here</p></body></html>''"

definition rewriter_fs :: filesystem where
  "rewriter_fs p =
     (if p = directory @ ''/pasta.html'' then Inr menu_html
      else if p = directory @ ''/about.html'' then Inr plain_html
      else Inl ''No such file or directory'')"

section \<open>Normalisation\<close>

lemma replace_space_hyphen:
  "replace '' '' ''-'' s = map (\<lambda>c. if c = CHR '' '' then CHR ''-'' else c) s"
proof -
  have "replace_from '' '' ''-'' s = map (\<lambda>c. if c = CHR '' '' then CHR ''-'' else c) s"
    by (induction s) auto
  then show ?thesis by (simp add: replace_def)
qed

lemma join_spec_data_tags:
  "join '' '' (map normalized_tag ts) = spec_data_tags ts"
  by (induction ts rule: spec_data_tags.induct) simp_all

text \<open>
  Claim C1. For every ordered tag list the auditor extracts, the computed data-tags string
  is the single-space join, in the list's order, of the tags lower-cased with every space
  replaced by a hyphen; the tags Main Course and Spicy give \<open>main-course spicy\<close>.
\<close>

theorem formatted_data_tags_normalized:
  "formatted_data_tags T = spec_data_tags T \<and>
   formatted_data_tags [''Main Course'', ''Spicy''] = ''main-course spicy''"
proof
  have "(\<lambda>tag. replace '' '' ''-'' (lower tag)) = normalized_tag"
    by (rule ext) (simp add: replace_space_hyphen normalized_tag_def)
  then show "formatted_data_tags T = spec_data_tags T"
    by (simp add: formatted_data_tags_def join_spec_data_tags)
  show "formatted_data_tags [''Main Course'', ''Spicy''] = ''main-course spicy''"
    by (simp add: formatted_data_tags_def replace_def lower_def lower_char_def
        upper_letters_def lower_letters_def)
qed

theorem formatted_data_tags_normalized_witness:
  "formatted_data_tags [''Side Dish'', ''Vegan'', ''Quick''] = ''side-dish vegan quick'' \<and>
   spec_data_tags [''Side Dish'', ''Vegan'', ''Quick''] = ''side-dish vegan quick''"
  using formatted_data_tags_normalized [of "[''Side Dish'', ''Vegan'', ''Quick'']"]
  by (simp add: normalized_tag_def lower_def lower_char_def upper_letters_def lower_letters_def)

section \<open>Classification\<close>

lemma extract_Some_prints_nothing:
  "fst (extract_tags_from_recipe_page parse fs f) = Some tags \<Longrightarrow>
   extract_tags_from_recipe_page parse fs f = (Some tags, [])"
  by (auto simp: extract_tags_from_recipe_page_def split: sum.splits option.splits)

text \<open>
  Claim C2. For a recipe whose tags are extracted and whose search in the index returns,
  the loop body writes the entry with status MATCH and counts a match exactly when the
  value found in the index is the computed string itself; in every other case, the missing
  value included, it writes the entry with status MISMATCH and counts a mismatch. The
  error counter stays as it is.
\<close>

theorem status_match_iff:
  assumes "fst (extract_tags_from_recipe_page parse fs recipe_file) = Some tags"
      and "extract_current_tags_from_index special index_content (recipe_name_of recipe_file) =
             Inr current"
  shows "fst (analyze_recipe parse special fs index_content st recipe_file) = None \<and>
         ((report (snd (analyze_recipe parse special fs index_content st recipe_file)) =
             report st @ entry (recipe_name_of recipe_file) ''MATCH'' tags current
               (formatted_data_tags tags) \<and>
           matches (snd (analyze_recipe parse special fs index_content st recipe_file)) =
             matches st + 1 \<and>
           mismatches (snd (analyze_recipe parse special fs index_content st recipe_file)) =
             mismatches st \<and>
           errors (snd (analyze_recipe parse special fs index_content st recipe_file)) = errors st)
          = (current = Some (formatted_data_tags tags))) \<and>
         ((report (snd (analyze_recipe parse special fs index_content st recipe_file)) =
             report st @ entry (recipe_name_of recipe_file) ''MISMATCH'' tags current
               (formatted_data_tags tags) \<and>
           mismatches (snd (analyze_recipe parse special fs index_content st recipe_file)) =
             mismatches st + 1 \<and>
           matches (snd (analyze_recipe parse special fs index_content st recipe_file)) =
             matches st \<and>
           errors (snd (analyze_recipe parse special fs index_content st recipe_file)) = errors st)
          = (current \<noteq> Some (formatted_data_tags tags)))"
proof -
  have ex: "extract_tags_from_recipe_page parse fs recipe_file = (Some tags, [])"
    using assms(1) by (rule extract_Some_prints_nothing)
  show ?thesis
  proof (cases "current = Some (formatted_data_tags tags)")
    case True
    then show ?thesis
      by (simp add: analyze_recipe_def ex assms(2) Let_def)
  next
    case False
    then show ?thesis
      by (simp add: analyze_recipe_def ex assms(2) Let_def)
  qed
qed

theorem status_match_iff_witness:
  "fst (extract_tags_from_recipe_page example_parse example_fs ''curry.html'') =
     Some [''Main Course'', ''Spicy''] \<and>
   extract_current_tags_from_index example_special example_index (recipe_name_of ''curry.html'') =
     Inr (Some ''main-course spicy'') \<and>
   formatted_data_tags [''Main Course'', ''Spicy''] = ''main-course spicy'' \<and>
   matches (snd (analyze_recipe example_parse example_special example_fs example_index st0
                   ''curry.html'')) = 1 \<and>
   mismatches (snd (analyze_recipe example_parse example_special example_fs example_index st0
                      ''curry.html'')) = 0"
proof -
  have h: "fst (extract_tags_from_recipe_page example_parse example_fs ''curry.html'') =
             Some [''Main Course'', ''Spicy'']"
    by code_simp
  have c: "extract_current_tags_from_index example_special example_index
             (recipe_name_of ''curry.html'') = Inr (Some ''main-course spicy'')"
    by code_simp
  have f: "formatted_data_tags [''Main Course'', ''Spicy''] = ''main-course spicy''"
    by code_simp
  show ?thesis
    using status_match_iff [OF h c, of st0] h c f by (simp add: st0_def)
qed

section \<open>Counters\<close>

lemma analyze_recipe_counts:
  "analyze_recipe parse special fs idx st f = (None, st') \<Longrightarrow>
   matches st' + mismatches st' + errors st' = matches st + mismatches st + errors st + 1"
  by (auto simp: analyze_recipe_def Let_def split: prod.splits option.splits sum.splits if_splits)

lemma analyze_files_counts:
  "analyze_files parse special fs idx st files = (None, st') \<Longrightarrow>
   matches st' + mismatches st' + errors st' =
   matches st + mismatches st + errors st + int (length files)"
proof (induction files arbitrary: st)
  case Nil
  then show ?case by simp
next
  case (Cons f files)
  from Cons.prems obtain st1 where
    s: "analyze_recipe parse special fs idx st f = (None, st1)" and
    r: "analyze_files parse special fs idx st1 files = (None, st')"
    by (auto split: prod.splits option.splits)
  from Cons.IH [OF r] analyze_recipe_counts [OF s] show ?case by simp
qed

lemma analyze_recipe_plain:
  "plain_name (recipe_name_of f) \<Longrightarrow> fst (analyze_recipe parse special fs idx st f) = None"
  by (simp add: analyze_recipe_def extract_current_tags_from_index_def Let_def
      split: prod.splits option.splits)

lemma analyze_files_plain:
  "list_all (\<lambda>f. plain_name (recipe_name_of f)) files \<Longrightarrow>
   fst (analyze_files parse special fs idx st files) = None"
proof (induction files arbitrary: st)
  case Nil
  then show ?case by simp
next
  case (Cons f files)
  then have "fst (analyze_recipe parse special fs idx st f) = None"
    by (simp add: analyze_recipe_plain)
  with Cons show ?case
    by (cases "analyze_recipe parse special fs idx st f") simp
qed

text \<open>
  Claim C4. When \<open>main\<close> ends without an exception, the three counters of its final
  state add up to the number of recipe files: each file adds one to exactly one counter.
  It ends so whenever the index page can be read and no recipe name has a metacharacter.
\<close>

theorem counters_sum_to_total:
  "(fst (main parse special fs listing) = None \<longrightarrow>
      matches (fst (snd (main parse special fs listing))) +
      mismatches (fst (snd (main parse special fs listing))) +
      errors (fst (snd (main parse special fs listing))) = int (length (recipe_files listing))) \<and>
   (fs ''index.html'' = Inr index_content \<and>
    list_all (\<lambda>f. plain_name (recipe_name_of f)) (recipe_files listing) \<longrightarrow>
      fst (main parse special fs listing) = None)"
proof (intro conjI impI)
  assume fin: "fst (main parse special fs listing) = None"
  then obtain idx where idx: "fs ''index.html'' = Inr idx"
    by (cases "fs ''index.html''") (auto simp: main_def)
  let ?st0 = "\<lparr>report = report_head (int (length (recipe_files listing))), out = [],
               mismatches = 0, matches = 0, errors = 0\<rparr>"
  obtain r st where a: "analyze_files parse special fs idx ?st0 (recipe_files listing) = (r, st)"
    by (cases "analyze_files parse special fs idx ?st0 (recipe_files listing)")
  with fin idx have r: "r = None"
    by (cases r) (auto simp: main_def Let_def)
  from analyze_files_counts [OF a [unfolded r]] a r idx
  show "matches (fst (snd (main parse special fs listing))) +
        mismatches (fst (snd (main parse special fs listing))) +
        errors (fst (snd (main parse special fs listing))) = int (length (recipe_files listing))"
    by (simp add: main_def Let_def)
next
  assume h: "fs ''index.html'' = Inr index_content \<and>
             list_all (\<lambda>f. plain_name (recipe_name_of f)) (recipe_files listing)"
  let ?st0 = "\<lparr>report = report_head (int (length (recipe_files listing))), out = [],
               mismatches = 0, matches = 0, errors = 0\<rparr>"
  from h have "fst (analyze_files parse special fs index_content ?st0 (recipe_files listing)) = None"
    by (simp add: analyze_files_plain)
  with h show "fst (main parse special fs listing) = None"
    by (cases "analyze_files parse special fs index_content ?st0 (recipe_files listing)")
       (simp add: main_def Let_def)
qed

theorem counters_sum_to_total_witness:
  "example_fs ''index.html'' = Inr example_index \<and>
   list_all (\<lambda>f. plain_name (recipe_name_of f)) (recipe_files example_listing) \<and>
   fst (main example_parse example_special example_fs example_listing) = None \<and>
   matches (fst (snd (main example_parse example_special example_fs example_listing))) +
   mismatches (fst (snd (main example_parse example_special example_fs example_listing))) +
   errors (fst (snd (main example_parse example_special example_fs example_listing))) = 6"
proof -
  have h: "example_fs ''index.html'' = Inr example_index"
    by (simp add: example_fs_def)
  have p: "list_all (\<lambda>f. plain_name (recipe_name_of f)) (recipe_files example_listing)"
    by code_simp
  have n: "length (recipe_files example_listing) = 6"
    by code_simp
  show ?thesis
    using counters_sum_to_total
        [of example_parse example_special example_fs example_listing example_index] h p n
    by simp
qed

section \<open>Read and parse failures\<close>

lemma analyze_files_append:
  "analyze_files parse special fs idx st (xs @ ys) =
     (case analyze_files parse special fs idx st xs of
        (Some e, st') \<Rightarrow> (Some e, st')
      | (None, st') \<Rightarrow> analyze_files parse special fs idx st' ys)"
  by (induction xs arbitrary: st) (auto split: prod.splits option.splits)

text \<open>
  Claim C7. When the read or the parse of a recipe file raises, the extraction catches the
  exception, prints its message and returns \<open>None\<close>; the loop body writes the ERROR entry
  of the recipe (the line with the recipe name and the status ERROR, the line that no tags
  section was found or the file could not be processed, and an empty line), counts an
  error, and the loop goes on with the files after it from the state so reached.
\<close>

theorem failed_file_is_error_and_batch_continues:
  assumes "fs recipe_file = Inl e \<or> (\<exists>content. fs recipe_file = Inr content \<and> parse content = Inl e)"
      and "analyze_files parse special fs index_content st before = (None, st1)"
  shows "extract_tags_from_recipe_page parse fs recipe_file =
           (None, [''Error processing '' @ recipe_file @ '': '' @ e]) \<and>
         analyze_recipe parse special fs index_content st1 recipe_file =
           (None, st1\<lparr>out := out st1 @
                         [''Analyzing '' @ recipe_name_of recipe_file @ ''...'',
                          ''Error processing '' @ recipe_file @ '': '' @ e],
                       report := report st1 @
                         ''Recipe: '' @ recipe_name_of recipe_file @ '' (ERROR)'' @ [CHR 0x0A] @
                         ''No Tags Section found or error processing file'' @ [CHR 0x0A, CHR 0x0A],
                       errors := errors st1 + 1\<rparr>) \<and>
         analyze_files parse special fs index_content st (before @ recipe_file # after) =
           analyze_files parse special fs index_content
             (st1\<lparr>out := out st1 @
                      [''Analyzing '' @ recipe_name_of recipe_file @ ''...'',
                       ''Error processing '' @ recipe_file @ '': '' @ e],
                   report := report st1 @
                         ''Recipe: '' @ recipe_name_of recipe_file @ '' (ERROR)'' @ [CHR 0x0A] @
                         ''No Tags Section found or error processing file'' @ [CHR 0x0A, CHR 0x0A],
                   errors := errors st1 + 1\<rparr>)
             after"
proof -
  have ex: "extract_tags_from_recipe_page parse fs recipe_file =
              (None, [''Error processing '' @ recipe_file @ '': '' @ e])"
    using assms(1) by (auto simp: extract_tags_from_recipe_page_def)
  then show ?thesis
    by (simp add: analyze_files_append assms(2) analyze_recipe_def error_entry_def nl_def Let_def)
qed

theorem failed_file_witness:
  "(example_fs ''gone.html'' = Inl ''No such file or directory'' \<or>
    (\<exists>content. example_fs ''gone.html'' = Inr content \<and>
       example_parse content = Inl ''No such file or directory'')) \<and>
   fst (analyze_files example_parse example_special example_fs example_index st0 [''curry.html'']) =
     None \<and>
   fst (analyze_files example_parse example_special example_fs example_index st0
          ([''curry.html''] @ ''gone.html'' # [''salad.html''])) = None \<and>
   report (snd (analyze_files example_parse example_special example_fs example_index st0
                  ([''curry.html''] @ ''gone.html'' # [''salad.html'']))) =
     ''Recipe: curry (MATCH)'' @ [CHR 0x0A] @
     ''Tags on recipe page: Main Course, Spicy'' @ [CHR 0x0A] @
     ''Current data-tags in index.html: main-course spicy'' @ [CHR 0x0A] @
     ''Correct data-tags should be: main-course spicy'' @ [CHR 0x0A, CHR 0x0A] @
     ''Recipe: gone (ERROR)'' @ [CHR 0x0A] @
     ''No Tags Section found or error processing file'' @ [CHR 0x0A, CHR 0x0A] @
     ''Recipe: salad (ERROR)'' @ [CHR 0x0A] @
     ''No Tags Section found or error processing file'' @ [CHR 0x0A, CHR 0x0A] \<and>
   out (snd (analyze_files example_parse example_special example_fs example_index st0
               ([''curry.html''] @ ''gone.html'' # [''salad.html'']))) =
     [''Analyzing curry...'', ''Analyzing gone...'',
      ''Error processing gone.html: No such file or directory'', ''Analyzing salad...''] \<and>
   errors (snd (analyze_files example_parse example_special example_fs example_index st0
                  ([''curry.html''] @ ''gone.html'' # [''salad.html'']))) = 2 \<and>
   matches (snd (analyze_files example_parse example_special example_fs example_index st0
                   ([''curry.html''] @ ''gone.html'' # [''salad.html'']))) = 1"
proof -
  have h: "example_fs ''gone.html'' = Inl ''No such file or directory'' \<or>
           (\<exists>content. example_fs ''gone.html'' = Inr content \<and>
              example_parse content = Inl ''No such file or directory'')"
    by (simp add: example_fs_def)
  have b: "analyze_files example_parse example_special example_fs example_index st0 [''curry.html''] =
             (None, snd (analyze_files example_parse example_special example_fs example_index st0
                           [''curry.html'']))"
    by code_simp
  have r: "report (snd (analyze_files example_parse example_special example_fs example_index st0
                  ([''curry.html''] @ ''gone.html'' # [''salad.html'']))) =
     ''Recipe: curry (MATCH)'' @ [CHR 0x0A] @
     ''Tags on recipe page: Main Course, Spicy'' @ [CHR 0x0A] @
     ''Current data-tags in index.html: main-course spicy'' @ [CHR 0x0A] @
     ''Correct data-tags should be: main-course spicy'' @ [CHR 0x0A, CHR 0x0A] @
     ''Recipe: gone (ERROR)'' @ [CHR 0x0A] @
     ''No Tags Section found or error processing file'' @ [CHR 0x0A, CHR 0x0A] @
     ''Recipe: salad (ERROR)'' @ [CHR 0x0A] @
     ''No Tags Section found or error processing file'' @ [CHR 0x0A, CHR 0x0A]"
    by code_simp
  have o: "out (snd (analyze_files example_parse example_special example_fs example_index st0
               ([''curry.html''] @ ''gone.html'' # [''salad.html'']))) =
     [''Analyzing curry...'', ''Analyzing gone...'',
      ''Error processing gone.html: No such file or directory'', ''Analyzing salad...'']"
    by code_simp
  have e: "errors (snd (analyze_files example_parse example_special example_fs example_index st0
                  ([''curry.html''] @ ''gone.html'' # [''salad.html'']))) = 2"
    by code_simp
  have m: "matches (snd (analyze_files example_parse example_special example_fs example_index st0
                   ([''curry.html''] @ ''gone.html'' # [''salad.html'']))) = 1"
    by code_simp
  have f: "fst (analyze_files example_parse example_special example_fs example_index st0
          ([''curry.html''] @ ''gone.html'' # [''salad.html''])) = None"
    by code_simp
  have b': "fst (analyze_files example_parse example_special example_fs example_index st0
                  [''curry.html'']) = None"
    by code_simp
  show ?thesis
    using failed_file_is_error_and_batch_continues
        [where fs = example_fs and recipe_file = "''gone.html''" and parse = example_parse,
         OF h b]
      h b' r o e m f
    by blast
qed

section \<open>Pages without a tags section\<close>

lemma first_tags_section_None:
  "\<forall>(p, n) \<in> set ms. find_next_sibling ''div'' soup (find_parent p) = None \<Longrightarrow>
   first_tags_section soup ms = None"
  by (induction ms) auto

text \<open>
  Claim C5, amended. When no string node of the page (a comment, a text or any other
  string) that contains the marker has a parent with a \<open>div\<close> among its later siblings,
  the extraction returns \<open>None\<close> and prints nothing; the loop writes the ERROR entry
  (the line with the recipe name and the status ERROR, the line that no tags section was
  found or the file could not be processed, and an empty line), adds one to the error
  counter and leaves the match and mismatch counters as they are.
\<close>

theorem no_tags_section_is_error:
  assumes "fs recipe_file = Inr content" and "parse content = Inr soup"
      and "\<forall>(p, n) \<in> set (find_all_marker soup).
             find_next_sibling ''div'' soup (find_parent p) = None"
  shows "extract_tags_from_recipe_page parse fs recipe_file = (None, []) \<and>
         analyze_recipe parse special fs index_content st recipe_file =
           (None, st\<lparr>out := out st @ [''Analyzing '' @ recipe_name_of recipe_file @ ''...''],
                     report := report st @
                       ''Recipe: '' @ recipe_name_of recipe_file @ '' (ERROR)'' @ [CHR 0x0A] @
                       ''No Tags Section found or error processing file'' @ [CHR 0x0A, CHR 0x0A],
                     errors := errors st + 1\<rparr>) \<and>
         matches (snd (analyze_recipe parse special fs index_content st recipe_file)) = matches st \<and>
         mismatches (snd (analyze_recipe parse special fs index_content st recipe_file)) =
           mismatches st"
proof -
  have ex: "extract_tags_from_recipe_page parse fs recipe_file = (None, [])"
    using assms by (simp add: extract_tags_from_recipe_page_def first_tags_section_None)
  then show ?thesis
    by (simp add: analyze_recipe_def error_entry_def nl_def Let_def)
qed

theorem no_tags_section_witness:
  "example_fs ''salad.html'' = Inr salad_html \<and> example_parse salad_html = Inr salad_page \<and>
   find_all_marker salad_page = [] \<and>
   extract_tags_from_recipe_page example_parse example_fs ''salad.html'' = (None, []) \<and>
   report (snd (analyze_recipe example_parse example_special example_fs example_index st0
                  ''salad.html'')) =
     ''Recipe: salad (ERROR)'' @ [CHR 0x0A] @
     ''No Tags Section found or error processing file'' @ [CHR 0x0A, CHR 0x0A] \<and>
   errors (snd (analyze_recipe example_parse example_special example_fs example_index st0
                  ''salad.html'')) = 1 \<and>
   matches (snd (analyze_recipe example_parse example_special example_fs example_index st0
                   ''salad.html'')) = 0"
proof -
  have h1: "example_fs ''salad.html'' = Inr salad_html" by code_simp
  have h2: "example_parse salad_html = Inr salad_page" by code_simp
  have m: "find_all_marker salad_page = []" by code_simp
  have n: "recipe_name_of ''salad.html'' = ''salad''" by code_simp
  have h3: "\<forall>(p, n) \<in> set (find_all_marker salad_page).
              find_next_sibling ''div'' salad_page (find_parent p) = None"
    by (simp add: m)
  show ?thesis
    using no_tags_section_is_error
        [where fs = example_fs and recipe_file = "''salad.html''" and parse = example_parse
           and special = example_special and index_content = example_index and st = st0,
         OF h1 h2 h3]
      h1 h2 m n
    by (simp add: st0_def)
qed

text \<open>
  The claim as stated, with comments as the only markers, fails on the page whose marker
  is a heading: no comment holds the marker, and yet the extraction returns the empty
  list and the recipe is counted as a mismatch.
\<close>

theorem text_marker_counterexample:
  "example_fs ''soup.html'' = Inr soup_html \<and> example_parse soup_html = Inr soup_page \<and>
   comment_markers soup_page = [] \<and>
   extract_tags_from_recipe_page example_parse example_fs ''soup.html'' = (Some [], []) \<and>
   fst (analyze_recipe example_parse example_special example_fs example_index st0 ''soup.html'') =
     None \<and>
   errors (snd (analyze_recipe example_parse example_special example_fs example_index st0
                  ''soup.html'')) = 0 \<and>
   mismatches (snd (analyze_recipe example_parse example_special example_fs example_index st0
                      ''soup.html'')) = 1"
  by code_simp

section \<open>Recipes missing from the index\<close>

text \<open>
  Claim C6. When the tags of a recipe are extracted and the search in the index finds
  nothing, the current value is \<open>None\<close>, the entry is written with status MISMATCH and
  the value \<open>None\<close>, the mismatch counter grows by one and the error and match counters
  stay as they are.
\<close>

theorem missing_index_entry_is_mismatch:
  assumes "fst (extract_tags_from_recipe_page parse fs recipe_file) = Some tags"
      and "extract_current_tags_from_index special index_content (recipe_name_of recipe_file) =
             Inr None"
  shows "analyze_recipe parse special fs index_content st recipe_file =
           (None, st\<lparr>out := out st @ [''Analyzing '' @ recipe_name_of recipe_file @ ''...''],
                     report := report st @
                       entry (recipe_name_of recipe_file) ''MISMATCH'' tags None
                         (formatted_data_tags tags),
                     mismatches := mismatches st + 1\<rparr>) \<and>
         errors (snd (analyze_recipe parse special fs index_content st recipe_file)) = errors st \<and>
         matches (snd (analyze_recipe parse special fs index_content st recipe_file)) = matches st"
proof -
  have ex: "extract_tags_from_recipe_page parse fs recipe_file = (Some tags, [])"
    using assms(1) by (rule extract_Some_prints_nothing)
  show ?thesis
    by (simp add: analyze_recipe_def ex assms(2) Let_def)
qed

theorem missing_index_entry_witness:
  "fst (extract_tags_from_recipe_page example_parse example_fs ''toast.html'') = Some [] \<and>
   extract_current_tags_from_index example_special example_index (recipe_name_of ''toast.html'') =
     Inr None \<and>
   mismatches (snd (analyze_recipe example_parse example_special example_fs example_index st0
                      ''toast.html'')) = 1 \<and>
   errors (snd (analyze_recipe example_parse example_special example_fs example_index st0
                  ''toast.html'')) = 0"
proof -
  have h1: "fst (extract_tags_from_recipe_page example_parse example_fs ''toast.html'') = Some []"
    by code_simp
  have h2: "extract_current_tags_from_index example_special example_index
              (recipe_name_of ''toast.html'') = Inr None"
    by code_simp
  show ?thesis
    using missing_index_entry_is_mismatch [OF h1 h2, of st0] h1 h2 by (simp add: st0_def)
qed

section \<open>What the auditor writes\<close>

lemma html_not_report: "endswith p ''.html'' \<Longrightarrow> p \<noteq> ''tag_analysis_report.txt''"
  by (auto simp: endswith_def suffix_def)

text \<open>
  Claim C9. After a run of \<open>main\<close>, however it ends, every path but that of the report
  file holds what it held before; in particular every file whose name ends in \<open>.html\<close>
  is unchanged.
\<close>

theorem auditor_writes_report_only:
  "(p \<noteq> ''tag_analysis_report.txt'' \<longrightarrow> snd (snd (main parse special fs listing)) p = fs p) \<and>
   (endswith p ''.html'' \<longrightarrow> snd (snd (main parse special fs listing)) p = fs p)"
proof -
  have "p \<noteq> ''tag_analysis_report.txt'' \<Longrightarrow> snd (snd (main parse special fs listing)) p = fs p"
    by (simp add: main_def Let_def split: sum.splits prod.splits option.splits)
  then show ?thesis using html_not_report by blast
qed

theorem auditor_writes_report_only_witness:
  "''curry.html'' \<noteq> ''tag_analysis_report.txt'' \<and> endswith ''curry.html'' ''.html'' \<and>
   snd (snd (main example_parse example_special example_fs example_listing)) ''curry.html'' =
     Inr curry_html"
proof -
  have h1: "''curry.html'' \<noteq> ''tag_analysis_report.txt''" by simp
  have h2: "endswith ''curry.html'' ''.html''" by code_simp
  have f: "example_fs ''curry.html'' = Inr curry_html" by code_simp
  show ?thesis
    using auditor_writes_report_only
        [of "''curry.html''" example_parse example_special example_fs example_listing]
      h1 h2 f by simp
qed

section \<open>Tags sections without tags\<close>





section \<open>The substitution of the header\<close>

lemma match_here_concat:
  "match_here items s = Some (ps, rest) \<Longrightarrow> length ps = length items \<and> s = concat ps @ rest"
proof (induction items s arbitrary: ps rest rule: match_here.induct)
  case (5 k r c cs)
  show ?case
  proof (cases "cls_match k c")
    case True
    show ?thesis
    proof (cases "match_here (Greedy k # r) cs")
      case None
      with 5 True show ?thesis by auto
    next
      case (Some m)
      obtain qs rest' where m: "m = (qs, rest')" by (cases m)
      from 5(1) [OF True, of qs rest'] Some m
      have ih: "length qs = Suc (length r)" "cs = concat qs @ rest'" by auto
      then obtain q qs' where q: "qs = q # qs'" by (cases qs) auto
      from 5(4) True Some m q have "ps = (c # q) # qs'" "rest = rest'" by auto
      with ih q show ?thesis by auto
    qed
  next
    case False
    with 5 show ?thesis by auto
  qed
next
  case (7 k r c cs)
  show ?case
  proof (cases "match_here r (c # cs)")
    case (Some m)
    obtain qs rest' where m: "m = (qs, rest')" by (cases m)
    from 7(1) Some m have ih: "length qs = length r" "c # cs = concat qs @ rest'" by auto
    from 7(3) Some m have "ps = [] # qs" "rest = rest'" by auto
    with ih show ?thesis by simp
  next
    case None
    with 7(3) have T: "cls_match k c" by (auto split: if_splits)
    with 7(3) None obtain qs rest' where
      m: "match_here (Lazy k # r) cs = Some (qs, rest')" and g: "(ps, rest) = grow c (qs, rest')"
      by auto
    from 7(2) [OF None T m] have ih: "length qs = Suc (length r)" "cs = concat qs @ rest'" by auto
    then obtain q qs' where q: "qs = q # qs'" by (cases qs) auto
    with g have "ps = (c # q) # qs'" "rest = rest'" by auto
    with ih q show ?thesis by auto
  qed
qed (auto split: if_splits)

lemma re_search_concat:
  "re_search items s = Some (pre, ps, rest) \<Longrightarrow> s = pre @ concat ps @ rest"
proof (induction s arbitrary: pre)
  case Nil
  then show ?case by (auto dest: match_here_concat)
next
  case (Cons c cs)
  show ?case
  proof (cases "match_here items (c # cs)")
    case None
    with Cons.prems obtain pre' where "re_search items cs = Some (pre', ps, rest)" "pre = c # pre'"
      by auto
    with Cons.IH show ?thesis by auto
  next
    case (Some m)
    with Cons.prems show ?thesis by (cases m) (auto dest: match_here_concat)
  qed
qed

lemma re_sub_no_match:
  "re_search items s = None \<Longrightarrow> re_sub items repl s = s"
proof (induction s)
  case Nil
  then show ?case by (subst re_sub.simps) auto
next
  case (Cons c cs)
  then show ?case by (subst re_sub.simps) (auto split: option.splits)
qed

lemma re_sub_first_match:
  "re_search items s = Some (pre, ps, rest) \<Longrightarrow> concat ps \<noteq> [] \<Longrightarrow>
   re_sub items repl s = pre @ repl @ re_sub items repl rest"
proof (induction s arbitrary: pre)
  case Nil
  then show ?case by (auto dest: match_here_concat)
next
  case (Cons c cs)
  show ?case
  proof (cases "match_here items (c # cs)")
    case None
    with Cons.prems obtain pre' where "re_search items cs = Some (pre', ps, rest)" "pre = c # pre'"
      by auto
    with Cons.IH [of pre'] Cons.prems(2) None show ?thesis
      by (subst re_sub.simps) auto
  next
    case (Some m)
    with Cons.prems have m: "m = (ps, rest)" "pre = []" by (cases m; auto)+
    from match_here_concat Some m have "c # cs = concat ps @ rest" by blast
    then have "length (c # cs) = length (concat ps) + length rest"
      by (metis length_append)
    with Cons.prems(2) have "length rest < length (c # cs)"
      by simp
    with Some m show ?thesis by (subst re_sub.simps) auto
  qed
qed

lemma match_here_One_nonempty:
  "match_here (One k # r) s = Some (ps, rest) \<Longrightarrow> concat ps \<noteq> []"
  by (cases s) (auto split: if_splits)

lemma pattern_match_nonempty:
  "match_here pattern s = Some (ps, rest) \<Longrightarrow> concat ps \<noteq> []"
  by (rule match_here_One_nonempty [of "Lit CHR ''<''" "lits ''body>'' @ [Lazy Any] @ lits mobile_nav_div"])
     (simp add: pattern_def lits_def)

lemma re_search_match_here:
  "re_search items s = Some (pre, ps, rest) \<Longrightarrow> match_here items (drop (length pre) s) = Some (ps, rest)"
proof (induction s arbitrary: pre)
  case Nil
  then show ?case by auto
next
  case (Cons c cs)
  then show ?case by (cases "match_here items (c # cs)") auto
qed

lemma new_content_no_match:
  "match_span pattern content = None \<Longrightarrow> new_content content = content"
  by (simp add: match_span_def new_content_def re_sub_no_match)

lemma new_content_match:
  assumes "match_span pattern content = Some (pre, m, rest)"
  shows "content = pre @ m @ rest \<and> new_content content = pre @ NEW_HEADER @ new_content rest"
proof -
  from assms obtain ps where s: "re_search pattern content = Some (pre, ps, rest)" and m: "m = concat ps"
    by (auto simp: match_span_def)
  from re_search_match_here [OF s] have "concat ps \<noteq> []" by (rule pattern_match_nonempty)
  with s m show ?thesis
    by (simp add: new_content_def re_sub_first_match re_search_concat)
qed

text \<open>
  The match the search finds: when the first \<open><body>\<close> of the content is followed by a
  mobile-navigation \<open>div\<close> tag, the match runs from that \<open><body>\<close> through the first
  such tag behind it.
\<close>

lemma match_here_lits:
  "match_here (lits a @ r) s =
     (if prefix a s
      then map_option (\<lambda>(ps, rest). (map (\<lambda>c. [c]) a @ ps, rest)) (match_here r (drop (length a) s))
      else None)"
proof (induction a arbitrary: s)
  case Nil
  then show ?case by (simp add: lits_def option.map_id)
next
  case (Cons c a)
  have IH: "\<And>s. match_here (lits a @ r) s =
     (if prefix a s
      then map_option (\<lambda>(ps, rest). (map (\<lambda>c. [c]) a @ ps, rest)) (match_here r (drop (length a) s))
      else None)"
    using Cons.IH .
  show ?case
  proof (cases s)
    case Nil
    then show ?thesis by (simp add: lits_def)
  next
    case (Cons d ds)
    have l: "lits (c # a) @ r = One (Lit c) # (lits a @ r)" by (simp add: lits_def)
    show ?thesis
      unfolding l Cons
      by (simp add: IH option.map_comp comp_def split_def)
  qed
qed

lemma match_here_lazy_first:
  assumes "\<forall>j<length mid. match_here r (drop j (mid @ t)) = None"
      and "match_here r t = Some (ps, rest)"
  shows "match_here (Lazy Any # r) (mid @ t) = Some (mid # ps, rest)"
  using assms
proof (induction mid)
  case Nil
  then show ?case by (cases t) auto
next
  case (Cons c mid)
  from Cons.prems(1) have z: "match_here r (c # mid @ t) = None" by force
  have "\<forall>j<length mid. match_here r (drop j (mid @ t)) = None"
  proof (intro allI impI)
    fix j assume "j < length mid"
    then have "Suc j < length (c # mid)" by simp
    with Cons.prems(1) have "match_here r (drop (Suc j) ((c # mid) @ t)) = None" by blast
    then show "match_here r (drop j (mid @ t)) = None" by simp
  qed
  from Cons.IH [OF this Cons.prems(2)] z show ?case by simp
qed

lemma re_search_first:
  assumes "\<forall>i<length pre. match_here items (drop i (pre @ t)) = None"
      and "match_here items t = Some (ps, rest)"
  shows "re_search items (pre @ t) = Some (pre, ps, rest)"
  using assms
proof (induction pre)
  case Nil
  then show ?case by (cases t) auto
next
  case (Cons c pre)
  from Cons.prems(1) have z: "match_here items (c # pre @ t) = None" by force
  have "\<forall>i<length pre. match_here items (drop i (pre @ t)) = None"
  proof (intro allI impI)
    fix i assume "i < length pre"
    then have "Suc i < length (c # pre)" by simp
    with Cons.prems(1) have "match_here items (drop (Suc i) ((c # pre) @ t)) = None" by blast
    then show "match_here items (drop i (pre @ t)) = None" by simp
  qed
  from Cons.IH [OF this Cons.prems(2)] z show ?case by simp
qed

lemma concat_singles: "concat (map (\<lambda>c. [c]) a) = a"
  by (induction a) simp_all

lemma match_span_pattern_first:
  assumes "\<forall>i<length pre. \<not> prefix ''<body>'' (drop i (pre @ ''<body>'' @ mid @ mobile_nav_div @ post))"
      and "\<forall>j<length mid. \<not> prefix mobile_nav_div (drop j (mid @ mobile_nav_div @ post))"
  shows "match_span pattern (pre @ ''<body>'' @ mid @ mobile_nav_div @ post) =
           Some (pre, ''<body>'' @ mid @ mobile_nav_div, post)"
proof -
  let ?D = "map (\<lambda>c. [c]) mobile_nav_div"
  let ?B = "map (\<lambda>c. [c]) ''<body>''"
  have p: "pattern = lits ''<body>'' @ (Lazy Any # lits mobile_nav_div)"
    by (simp add: pattern_def)
  have d: "\<And>s. match_here (lits mobile_nav_div) s =
             (if prefix mobile_nav_div s then Some (?D, drop (length mobile_nav_div) s) else None)"
    using match_here_lits [of mobile_nav_div "[]"] by simp
  have d0: "match_here (lits mobile_nav_div) (mobile_nav_div @ post) = Some (?D, post)"
    by (simp add: d)
  have "\<forall>j<length mid. match_here (lits mobile_nav_div) (drop j (mid @ mobile_nav_div @ post)) = None"
    using assms(2) by (simp add: d)
  from match_here_lazy_first [OF this d0]
  have lz: "match_here (Lazy Any # lits mobile_nav_div) (mid @ mobile_nav_div @ post) =
              Some (mid # ?D, post)" .
  have here: "match_here pattern (''<body>'' @ mid @ mobile_nav_div @ post) =
                Some (?B @ mid # ?D, post)"
    unfolding p match_here_lits using lz by simp
  have "\<forall>i<length pre. match_here pattern (drop i (pre @ ''<body>'' @ mid @ mobile_nav_div @ post)) = None"
    unfolding p match_here_lits using assms(1) by simp
  from re_search_first [OF this here]
  show ?thesis
    by (simp add: match_span_def concat_singles)
qed

lemma match_span_pattern_shape:
  assumes "match_span pattern content = Some (pre, m, post)"
  shows "\<exists>mid. m = ''<body>'' @ mid @ mobile_nav_div"
proof -
  from assms obtain ps where s: "re_search pattern content = Some (pre, ps, post)" and m: "m = concat ps"
    by (auto simp: match_span_def)
  let ?s = "drop (length pre) content"
  have p: "pattern = lits ''<body>'' @ (Lazy Any # lits mobile_nav_div)"
    by (simp add: pattern_def)
  from re_search_match_here [OF s] have mh: "match_here pattern ?s = Some (ps, post)" .
  then have "\<exists>qs s'. match_here (Lazy Any # lits mobile_nav_div) s' = Some (qs, post) \<and>
                 ps = map (\<lambda>c. [c]) ''<body>'' @ qs"
    unfolding p match_here_lits by (auto split: if_splits)
  then obtain qs s' where q: "match_here (Lazy Any # lits mobile_nav_div) s' = Some (qs, post)"
      and ps: "ps = map (\<lambda>c. [c]) ''<body>'' @ qs"
    by blast
  have lazy: "\<And>s qs post. match_here (Lazy Any # lits mobile_nav_div) s = Some (qs, post) \<Longrightarrow>
          \<exists>mid. concat qs = mid @ mobile_nav_div"
  proof -
    fix s qs post
    show "match_here (Lazy Any # lits mobile_nav_div) s = Some (qs, post) \<Longrightarrow>
          \<exists>mid. concat qs = mid @ mobile_nav_div"
    proof (induction s arbitrary: qs)
      case Nil
      then show ?case
        using match_here_lits [of mobile_nav_div "[]" "[]"]
        by (auto simp: concat_singles split: if_splits)
    next
      case (Cons c cs)
      show ?case
      proof (cases "match_here (lits mobile_nav_div) (c # cs)")
        case (Some r)
        with Cons.prems show ?thesis
          using match_here_lits [of mobile_nav_div "[]" "c # cs"]
          by (auto simp: concat_singles split: if_splits)
      next
        case None
        with Cons.prems obtain rs post' where
          r: "match_here (Lazy Any # lits mobile_nav_div) cs = Some (rs, post')"
          and g: "grow c (rs, post') = (qs, post)"
          by auto
        from match_here_concat [OF r] obtain r0 rs' where rs: "rs = r0 # rs'" by (cases rs) auto
        with g have e: "post' = post" "qs = (c # r0) # rs'" by auto
        from Cons.IH [OF r [unfolded e(1)]] obtain mid where "concat rs = mid @ mobile_nav_div"
          by blast
        with e rs have "concat qs = (c # mid) @ mobile_nav_div" by auto
        then show ?thesis by blast
      qed
    qed
  qed
  from lazy [OF q] obtain mid where "concat qs = mid @ mobile_nav_div" by blast
  with ps m have "m = ''<body>'' @ mid @ mobile_nav_div" by (simp add: concat_singles)
  then show ?thesis by blast
qed

text \<open>
  Claim C3, amended. A selected file that can be read is written back with the result of
  the substitution. When the pattern has no match in the content, that is the content
  itself. When it has one, the match runs from a \<open><body>\<close> to a mobile-navigation
  \<open>div\<close> tag, and the written content is the content before the match, then the new
  header, then the content after the match with the substitution applied to it as well,
  which is the content after the match as it was when no further match is in it.
\<close>

theorem header_rewrite_result:
  assumes "fs file_path = Inr content"
  shows "update_file fs file_path = Inr (fs(file_path := Inr (new_content content))) \<and>
         (match_span pattern content = None \<longrightarrow> new_content content = content) \<and>
         (\<forall>pre m rest. match_span pattern content = Some (pre, m, rest) \<longrightarrow>
            (\<exists>mid. m = ''<body>'' @ mid @ mobile_nav_div) \<and>
            content = pre @ m @ rest \<and>
            new_content content = pre @ NEW_HEADER @ new_content rest \<and>
            (match_span pattern rest = None \<longrightarrow> new_content content = pre @ NEW_HEADER @ rest))"
  using assms new_content_match new_content_no_match match_span_pattern_shape
  by (simp add: update_file_def)

theorem header_rewrite_result_witness:
  "rewriter_fs (directory @ ''/pasta.html'') = Inr menu_html \<and>
   match_span pattern menu_html =
     Some (''<html>'', ''<body><nav>'' @ mobile_nav_div, ''Menu</div></body></html>'') \<and>
   match_span pattern ''Menu</div></body></html>'' = None \<and>
   new_content menu_html = ''<html>'' @ NEW_HEADER @ ''Menu</div></body></html>'' \<and>
   rewriter_fs (directory @ ''/about.html'') = Inr plain_html \<and>
   match_span pattern plain_html = None \<and>
   new_content plain_html = plain_html"
proof -
  have h1: "rewriter_fs (directory @ ''/pasta.html'') = Inr menu_html" by code_simp
  have m1: "match_span pattern menu_html =
     Some (''<html>'', ''<body><nav>'' @ mobile_nav_div, ''Menu</div></body></html>'')" by code_simp
  have n1: "match_span pattern ''Menu</div></body></html>'' = None" by code_simp
  have h2: "rewriter_fs (directory @ ''/about.html'') = Inr plain_html" by code_simp
  have m2: "match_span pattern plain_html = None" by code_simp
  have c1: "new_content menu_html = ''<html>'' @ NEW_HEADER @ ''Menu</div></body></html>''"
    using header_rewrite_result
        [where fs = rewriter_fs and file_path = "directory @ ''/pasta.html''", OF h1] m1 n1
    by blast
  have c2: "new_content plain_html = plain_html"
    using header_rewrite_result
        [where fs = rewriter_fs and file_path = "directory @ ''/about.html''", OF h2] m2
    by blast
  from h1 m1 n1 c1 h2 m2 c2 show ?thesis by blast
qed

text \<open>
  The claim as stated leaves out the content before the match: on a page that opens with
  \<open><html>\<close> the written content keeps that opening and so is not the new header
  followed by the content after the match.
\<close>

theorem header_rewrite_counterexample:
  "match_span pattern menu_html =
     Some (''<html>'', ''<body><nav>'' @ mobile_nav_div, ''Menu</div></body></html>'') \<and>
   new_content menu_html = ''<html>'' @ NEW_HEADER @ ''Menu</div></body></html>'' \<and>
   new_content menu_html \<noteq> NEW_HEADER @ ''Menu</div></body></html>''"
  by code_simp

section \<open>The selection of files\<close>

text \<open>
  Claim C8. The selection drops every path that ends in \<open>index.html\<close> or in
  \<open>sesame-green-beans.html\<close>: a page named \<open>spicy-sesame-green-beans.html\<close> is left
  out with the two pages named in the comment of the source.
\<close>

theorem html_files_excludes_by_suffix:
  "html_files [''pasta.html'', ''spicy-sesame-green-beans.html'', ''index.html'',
               ''sesame-green-beans.html''] =
     [''/Users/Jim/Documents/GitHub/tasty-cooking/pasta.html'']"
  by code_simp

end
